theory Spec2Isabelle
  imports Main
begin

unbundle bit_operations_syntax

section \<open>The Python fragment that flux\_led/protocol.py uses\<close>

text \<open>
  Python integers are unbounded: they are \<open>int\<close>. A \<open>bytes\<close> value received from a
  device is immutable and is modelled by its value, an \<open>int list\<close>. A \<open>bytearray\<close> is a
  mutable object: \<open>ProtocolLEDENET8Byte.construct_message\<close> appends to its argument in place
  and returns the same object, so bytearrays live in an explicit store and are passed by
  reference. The store also holds the records emitted through the module logger
  \<open>_LOGGER\<close>, the only module-level object of protocol.py that is not a constant.
\<close>

datatype error = ValueError | IndexError | TypeError | ReferenceError

datatype log_record = Warning string "int list"

record state =
  heap :: "nat \<Rightarrow> int list option"
  next_ref :: nat
  logger :: "log_record list"

type_synonym 'a py = "state \<Rightarrow> (error + 'a) \<times> state"

definition return :: "'a \<Rightarrow> 'a py" where
  "return v s = (Inr v, s)"

definition bind :: "'a py \<Rightarrow> ('a \<Rightarrow> 'b py) \<Rightarrow> 'b py" where
  "bind m f s = (case m s of (Inl e, s') \<Rightarrow> (Inl e, s') | (Inr v, s') \<Rightarrow> f v s')"

definition lift :: "error + 'a \<Rightarrow> 'a py" where
  "lift r s = (r, s)"

text \<open>The values a byte can hold: \<open>range(256)\<close>.\<close>

definition in_byte_range :: "int \<Rightarrow> bool" where
  "in_byte_range x = (0 \<le> x \<and> x < 256)"

text \<open>
  \<open>bytearray(ints)\<close> allocates a fresh object; it raises ValueError ("byte must be in
  range(0, 256)") when an element is out of range, and then allocates nothing.
\<close>

definition bytearray :: "int list \<Rightarrow> nat py" where
  "bytearray xs s =
     (if list_all in_byte_range xs
      then (Inr (next_ref s),
            s\<lparr>heap := (heap s)(next_ref s \<mapsto> xs), next_ref := Suc (next_ref s)\<rparr>)
      else (Inl ValueError, s))"

text \<open>
  \<open>sum(b)\<close> and \<open>b.append(x)\<close> on a bytearray reference \<open>b\<close>. Python has no dangling
  reference; the model reports a reference that was never allocated as ReferenceError, and
  the theorems below show that no operation of the protocols reaches that branch.
\<close>

definition bytearray_sum :: "nat \<Rightarrow> int py" where
  "bytearray_sum b s =
     (case heap s b of
        None \<Rightarrow> (Inl ReferenceError, s)
      | Some bs \<Rightarrow> (Inr (sum_list bs), s))"

definition bytearray_append :: "nat \<Rightarrow> int \<Rightarrow> unit py" where
  "bytearray_append b x s =
     (case heap s b of
        None \<Rightarrow> (Inl ReferenceError, s)
      | Some bs \<Rightarrow>
          if in_byte_range x then (Inr (), s\<lparr>heap := (heap s)(b \<mapsto> bs @ [x])\<rparr>)
          else (Inl ValueError, s))"

text \<open>\<open>xs[i]\<close>: a negative index counts from the end; out of range raises IndexError.\<close>

definition getitem :: "int list \<Rightarrow> int \<Rightarrow> error + int" where
  "getitem xs i =
     (if 0 \<le> i \<and> i < int (length xs) then Inr (xs ! nat i)
      else if i < 0 \<and> - int (length xs) \<le> i then Inr (xs ! nat (int (length xs) + i))
      else Inl IndexError)"

text \<open>
  \<open>xs[i:j]\<close>: each bound counts from the end when negative and is clamped to
  \<open>0 .. len(xs)\<close>; a slice never raises.
\<close>

definition slice_bound :: "nat \<Rightarrow> int \<Rightarrow> nat" where
  "slice_bound n i = (if i < 0 then nat (max 0 (int n + i)) else min n (nat i))"

definition getslice :: "int list \<Rightarrow> int \<Rightarrow> int \<Rightarrow> int list" where
  "getslice xs i j =
     (let a = slice_bound (length xs) i; b = slice_bound (length xs) j
      in take (b - a) (drop a xs))"

text \<open>\<open>_LOGGER.warning(msg, *args)\<close> emits one record.\<close>

definition logger_warning :: "string \<Rightarrow> int list \<Rightarrow> unit py" where
  "logger_warning msg args s = (Inr (), s\<lparr>logger := logger s @ [Warning msg args]\<rparr>)"

text \<open>
  What a caller reads from the bytearray a call returned: the result of a \<open>construct_*\<close>
  operation is a reference, and the message is the content of the store there.
\<close>

definition returned_bytes :: "(error + nat) \<times> state \<Rightarrow> error + int list" where
  "returned_bytes r =
     (case r of
        (Inl e, s') \<Rightarrow> Inl e
      | (Inr b, s') \<Rightarrow> (case heap s' b of None \<Rightarrow> Inl ReferenceError | Some bs \<Rightarrow> Inr bs))"

section \<open>Constants and data of protocol.py\<close>

definition PROTOCOL_LEDENET_ORIGINAL :: string where
  "PROTOCOL_LEDENET_ORIGINAL = ''LEDENET_ORIGINAL''"

definition PROTOCOL_LEDENET_9BYTE :: string where
  "PROTOCOL_LEDENET_9BYTE = ''LEDENET''"

definition PROTOCOL_LEDENET_8BYTE :: string where
  "PROTOCOL_LEDENET_8BYTE = ''LEDENET_8BYTE''"

definition LEDENET_ORIGINAL_STATE_RESPONSE_LEN :: nat where
  "LEDENET_ORIGINAL_STATE_RESPONSE_LEN = 11"

definition LEDENET_STATE_RESPONSE_LEN :: nat where
  "LEDENET_STATE_RESPONSE_LEN = 14"

text \<open>\<open>class LevelWriteMode(Enum)\<close>; the member \<open>ALL\<close> is written \<open>ALL'\<close>.\<close>

datatype LevelWriteMode = ALL' | COLORS | WHITES

fun LevelWriteMode_value :: "LevelWriteMode \<Rightarrow> int" where
  "LevelWriteMode_value ALL' = 0x00"
| "LevelWriteMode_value COLORS = 0xF0"
| "LevelWriteMode_value WHITES = 0x0F"

text \<open>
  The two namedtuples start with the ten fields of \<open>LEDENET_BASE_STATE\<close>.
  \<open>LEDENETOriginalRawState\<close> adds \<open>check_sum\<close>; \<open>LEDENETRawState\<close> adds
  \<open>version_number\<close>, \<open>cool_white\<close>, \<open>color_mode\<close> and \<open>check_sum\<close>.
\<close>

record LEDENET_BASE_STATE =
  head :: int
  model_num :: int
  power_state :: int
  preset_pattern :: int
  mode :: int
  speed :: int
  red :: int
  green :: int
  blue :: int
  warm_white :: int

record LEDENETOriginalRawState = LEDENET_BASE_STATE +
  check_sum :: int

record LEDENETRawState = LEDENET_BASE_STATE +
  version_number :: int
  cool_white :: int
  color_mode :: int
  check_sum :: int

text \<open>
  Calling a namedtuple class with \<open>*raw_state\<close>: one positional argument per element;
  any other number of arguments than the class has fields (eleven, fourteen) raises
  TypeError.
\<close>

fun LEDENETOriginalRawState_new :: "int list \<Rightarrow> error + LEDENETOriginalRawState" where
  "LEDENETOriginalRawState_new [b0, b1, b2, b3, b4, b5, b6, b7, b8, b9, b10] =
     Inr \<lparr>head = b0, model_num = b1, power_state = b2, preset_pattern = b3, mode = b4,
          speed = b5, red = b6, green = b7, blue = b8, warm_white = b9,
          LEDENETOriginalRawState.check_sum = b10\<rparr>"
| "LEDENETOriginalRawState_new _ = Inl TypeError"

fun LEDENETRawState_new :: "int list \<Rightarrow> error + LEDENETRawState" where
  "LEDENETRawState_new [b0, b1, b2, b3, b4, b5, b6, b7, b8, b9, b10, b11, b12, b13] =
     Inr \<lparr>head = b0, model_num = b1, power_state = b2, preset_pattern = b3, mode = b4,
          speed = b5, red = b6, green = b7, blue = b8, warm_white = b9,
          version_number = b10, cool_white = b11, color_mode = b12, check_sum = b13\<rparr>"
| "LEDENETRawState_new _ = Inl TypeError"

section \<open>The protocol classes\<close>

text \<open>
  The three concrete classes. A method is a function of \<open>self\<close>; \<open>self.m\<close> inside a
  method goes through the dispatch function \<open>m\<close>, which follows the method resolution
  order: \<open>ProtocolLEDENET9Byte\<close> derives from \<open>ProtocolLEDENET8Byte\<close> and overrides
  \<open>name\<close> and \<open>construct_levels_change\<close> only.
\<close>

datatype protocol = ProtocolLEDENETOriginal | ProtocolLEDENET8Byte | ProtocolLEDENET9Byte

subsection \<open>Properties\<close>

definition on_byte :: "protocol \<Rightarrow> int" where
  "on_byte self = 0x23"

definition off_byte :: "protocol \<Rightarrow> int" where
  "off_byte self = 0x24"

fun name :: "protocol \<Rightarrow> string" where
  "name ProtocolLEDENETOriginal = PROTOCOL_LEDENET_ORIGINAL"
| "name ProtocolLEDENET8Byte = PROTOCOL_LEDENET_8BYTE"
| "name ProtocolLEDENET9Byte = PROTOCOL_LEDENET_9BYTE"

fun state_response_length :: "protocol \<Rightarrow> nat" where
  "state_response_length ProtocolLEDENETOriginal = LEDENET_ORIGINAL_STATE_RESPONSE_LEN"
| "state_response_length ProtocolLEDENET8Byte = LEDENET_STATE_RESPONSE_LEN"
| "state_response_length ProtocolLEDENET9Byte = LEDENET_STATE_RESPONSE_LEN"

text \<open>
  \<open>state_response_names\<close> and \<open>set_command_names\<close> are declared in \<open>ProtocolBase\<close> with a
  docstring for a body, and no class overrides them: reading either gives \<open>None\<close> on
  every protocol object.
\<close>

definition state_response_names :: "protocol \<Rightarrow> string list option" where
  "state_response_names self = None"

definition set_command_names :: "protocol \<Rightarrow> string list option" where
  "set_command_names self = None"

subsection \<open>construct\_message\<close>

definition ProtocolLEDENETOriginal_construct_message :: "protocol \<Rightarrow> nat \<Rightarrow> nat py" where
  "ProtocolLEDENETOriginal_construct_message self raw_bytes = return raw_bytes"

definition ProtocolLEDENET8Byte_construct_message :: "protocol \<Rightarrow> nat \<Rightarrow> nat py" where
  "ProtocolLEDENET8Byte_construct_message self raw_bytes =
     bind (bytearray_sum raw_bytes) (\<lambda>total.
       let csum = total AND 0xFF in
       bind (bytearray_append raw_bytes csum) (\<lambda>_.
         return raw_bytes))"

fun construct_message :: "protocol \<Rightarrow> nat \<Rightarrow> nat py" where
  "construct_message ProtocolLEDENETOriginal =
     ProtocolLEDENETOriginal_construct_message ProtocolLEDENETOriginal"
| "construct_message ProtocolLEDENET8Byte =
     ProtocolLEDENET8Byte_construct_message ProtocolLEDENET8Byte"
| "construct_message ProtocolLEDENET9Byte =
     ProtocolLEDENET8Byte_construct_message ProtocolLEDENET9Byte"

subsection \<open>construct\_state\_query\<close>

definition ProtocolLEDENETOriginal_construct_state_query :: "protocol \<Rightarrow> nat py" where
  "ProtocolLEDENETOriginal_construct_state_query self =
     bind (bytearray [0xEF, 0x01, 0x77]) (construct_message self)"

definition ProtocolLEDENET8Byte_construct_state_query :: "protocol \<Rightarrow> nat py" where
  "ProtocolLEDENET8Byte_construct_state_query self =
     bind (bytearray [0x81, 0x8A, 0x8B]) (construct_message self)"

fun construct_state_query :: "protocol \<Rightarrow> nat py" where
  "construct_state_query ProtocolLEDENETOriginal =
     ProtocolLEDENETOriginal_construct_state_query ProtocolLEDENETOriginal"
| "construct_state_query ProtocolLEDENET8Byte =
     ProtocolLEDENET8Byte_construct_state_query ProtocolLEDENET8Byte"
| "construct_state_query ProtocolLEDENET9Byte =
     ProtocolLEDENET8Byte_construct_state_query ProtocolLEDENET9Byte"

subsection \<open>construct\_state\_change\<close>

definition ProtocolLEDENETOriginal_construct_state_change :: "protocol \<Rightarrow> bool \<Rightarrow> nat py" where
  "ProtocolLEDENETOriginal_construct_state_change self turn_on =
     bind (bytearray [0xCC, if turn_on then on_byte self else off_byte self, 0x33])
       (construct_message self)"

definition ProtocolLEDENET8Byte_construct_state_change :: "protocol \<Rightarrow> bool \<Rightarrow> nat py" where
  "ProtocolLEDENET8Byte_construct_state_change self turn_on =
     bind (bytearray [0x71, if turn_on then on_byte self else off_byte self, 0x0F])
       (construct_message self)"

fun construct_state_change :: "protocol \<Rightarrow> bool \<Rightarrow> nat py" where
  "construct_state_change ProtocolLEDENETOriginal =
     ProtocolLEDENETOriginal_construct_state_change ProtocolLEDENETOriginal"
| "construct_state_change ProtocolLEDENET8Byte =
     ProtocolLEDENET8Byte_construct_state_change ProtocolLEDENET8Byte"
| "construct_state_change ProtocolLEDENET9Byte =
     ProtocolLEDENET8Byte_construct_state_change ProtocolLEDENET9Byte"

subsection \<open>construct\_levels\_change\<close>

text \<open>
  The arguments are \<open>persist, red, green, blue, warm_white, cool_white\<close> and the mode
  selector (\<open>color_mask\<close> in the original class, \<open>write_mode\<close> in the other two).
\<close>

definition ProtocolLEDENETOriginal_construct_levels_change ::
  "protocol \<Rightarrow> bool \<Rightarrow> int \<Rightarrow> int \<Rightarrow> int \<Rightarrow> int \<Rightarrow> int \<Rightarrow> LevelWriteMode \<Rightarrow> nat py" where
  "ProtocolLEDENETOriginal_construct_levels_change self persist r g b ww cw color_mask =
     bind (bytearray [0x56, r, g, b, 0xAA]) (construct_message self)"

definition ProtocolLEDENET8Byte_construct_levels_change ::
  "protocol \<Rightarrow> bool \<Rightarrow> int \<Rightarrow> int \<Rightarrow> int \<Rightarrow> int \<Rightarrow> int \<Rightarrow> LevelWriteMode \<Rightarrow> nat py" where
  "ProtocolLEDENET8Byte_construct_levels_change self persist r g b ww cw write_mode =
     bind (bytearray [if persist then 0x31 else 0x41, r, g, b, ww,
                      LevelWriteMode_value write_mode, 0x0F])
       (construct_message self)"

definition ProtocolLEDENET9Byte_construct_levels_change ::
  "protocol \<Rightarrow> bool \<Rightarrow> int \<Rightarrow> int \<Rightarrow> int \<Rightarrow> int \<Rightarrow> int \<Rightarrow> LevelWriteMode \<Rightarrow> nat py" where
  "ProtocolLEDENET9Byte_construct_levels_change self persist r g b ww cw write_mode =
     bind (bytearray [if persist then 0x31 else 0x41, r, g, b, ww, cw,
                      LevelWriteMode_value write_mode, 0x0F])
       (construct_message self)"

fun construct_levels_change ::
  "protocol \<Rightarrow> bool \<Rightarrow> int \<Rightarrow> int \<Rightarrow> int \<Rightarrow> int \<Rightarrow> int \<Rightarrow> LevelWriteMode \<Rightarrow> nat py" where
  "construct_levels_change ProtocolLEDENETOriginal =
     ProtocolLEDENETOriginal_construct_levels_change ProtocolLEDENETOriginal"
| "construct_levels_change ProtocolLEDENET8Byte =
     ProtocolLEDENET8Byte_construct_levels_change ProtocolLEDENET8Byte"
| "construct_levels_change ProtocolLEDENET9Byte =
     ProtocolLEDENET9Byte_construct_levels_change ProtocolLEDENET9Byte"

subsection \<open>is\_valid\_state\_response\<close>

text \<open>
  \<open>and\<close> evaluates its right operand only when the left one is true, so the original
  class indexes \<open>raw_state[1]\<close> only when the length is right.
\<close>

definition ProtocolLEDENETOriginal_is_valid_state_response ::
  "protocol \<Rightarrow> int list \<Rightarrow> bool py" where
  "ProtocolLEDENETOriginal_is_valid_state_response self raw_state =
     (if length raw_state = state_response_length self
      then bind (lift (getitem raw_state 1)) (\<lambda>b1. return (b1 = 0x01))
      else return False)"

definition ProtocolLEDENET8Byte_is_valid_state_response ::
  "protocol \<Rightarrow> int list \<Rightarrow> bool py" where
  "ProtocolLEDENET8Byte_is_valid_state_response self raw_state =
     (if length raw_state \<noteq> state_response_length self then return False
      else bind (lift (getitem raw_state 0)) (\<lambda>b0.
        if b0 \<noteq> 0x81 then return False
        else
          let expected_sum = sum_list (getslice raw_state 0 (- 1)) AND 0xFF in
          bind (lift (getitem raw_state (- 1))) (\<lambda>got.
            if expected_sum \<noteq> got
            then bind (logger_warning ''Checksum mismatch: Expected %s, got %s''
                         [expected_sum, got])
                   (\<lambda>_. return False)
            else return True)))"

fun is_valid_state_response :: "protocol \<Rightarrow> int list \<Rightarrow> bool py" where
  "is_valid_state_response ProtocolLEDENETOriginal =
     ProtocolLEDENETOriginal_is_valid_state_response ProtocolLEDENETOriginal"
| "is_valid_state_response ProtocolLEDENET8Byte =
     ProtocolLEDENET8Byte_is_valid_state_response ProtocolLEDENET8Byte"
| "is_valid_state_response ProtocolLEDENET9Byte =
     ProtocolLEDENET8Byte_is_valid_state_response ProtocolLEDENET9Byte"

subsection \<open>named\_raw\_state\<close>

definition ProtocolLEDENETOriginal_named_raw_state ::
  "protocol \<Rightarrow> int list \<Rightarrow> LEDENETOriginalRawState py" where
  "ProtocolLEDENETOriginal_named_raw_state self raw_state =
     lift (LEDENETOriginalRawState_new raw_state)"

definition ProtocolLEDENET8Byte_named_raw_state ::
  "protocol \<Rightarrow> int list \<Rightarrow> LEDENETRawState py" where
  "ProtocolLEDENET8Byte_named_raw_state self raw_state = lift (LEDENETRawState_new raw_state)"

text \<open>
  The result of \<open>named_raw_state\<close> is a namedtuple of one class or the other, according to
  the protocol: a value of the sum of the two record types.
\<close>

fun named_raw_state ::
  "protocol \<Rightarrow> int list \<Rightarrow> (LEDENETOriginalRawState + LEDENETRawState) py" where
  "named_raw_state ProtocolLEDENETOriginal raw_state =
     bind (ProtocolLEDENETOriginal_named_raw_state ProtocolLEDENETOriginal raw_state)
       (\<lambda>t. return (Inl t))"
| "named_raw_state ProtocolLEDENET8Byte raw_state =
     bind (ProtocolLEDENET8Byte_named_raw_state ProtocolLEDENET8Byte raw_state)
       (\<lambda>t. return (Inr t))"
| "named_raw_state ProtocolLEDENET9Byte raw_state =
     bind (ProtocolLEDENET8Byte_named_raw_state ProtocolLEDENET9Byte raw_state)
       (\<lambda>t. return (Inr t))"

section \<open>Reference points of the theorems\<close>

text \<open>
  The state of a fresh interpreter: nothing allocated, nothing logged. The closed
  instances below are evaluated in it.
\<close>

definition initial_state :: state where
  "initial_state = \<lparr>heap = (\<lambda>_. None), next_ref = 0, logger = []\<rparr>"

text \<open>
  The framing rule in the words of the specification: the original protocol sends the
  bytes as built, the other two append the sum of all bytes modulo 256.
\<close>

definition framed :: "protocol \<Rightarrow> int list \<Rightarrow> int list" where
  "framed p xs = (if p = ProtocolLEDENETOriginal then xs else xs @ [sum_list xs mod 256])"

text \<open>
  The checksum property in the words of the specification,
  \<open>sum(m[0:-1]) mod 256 == m[-1]\<close>, read with Python's indexing: an empty message has
  no last byte and does not satisfy it.
\<close>

definition trailing_checksum :: "int list \<Rightarrow> bool" where
  "trailing_checksum m = (getitem m (- 1) = Inr (sum_list (getslice m 0 (- 1)) mod 256))"

text \<open>
  A caller that invokes the same operation twice, \<open>a = f(); b = f()\<close>, and then reads
  both results: the first result is read after the second call, so a second call that
  touched the first object would show.
\<close>

definition called_twice :: "nat py \<Rightarrow> state \<Rightarrow> (error + int list) \<times> (error + int list)" where
  "called_twice f s =
     (case f s of (r1, s1) \<Rightarrow>
        (case f s1 of (r2, s2) \<Rightarrow> (returned_bytes (r1, s2), returned_bytes (r2, s2))))"

section \<open>Facts about the Python fragment\<close>

lemma and_255_eq_mod: "(x::int) AND 0xFF = x mod 256"
proof -
  have "x AND mask 8 = x mod 2 ^ 8"
    by (simp only: take_bit_eq_mask [symmetric] take_bit_eq_mod)
  moreover have "mask 8 = (0xFF::int)"
    by (simp add: mask_eq_exp_minus_1)
  ultimately show ?thesis by simp
qed

lemma in_byte_range_mod: "in_byte_range (x mod 256)"
  by (simp add: in_byte_range_def)

lemma in_byte_range_numeral [simp]: "in_byte_range (numeral k) = (numeral k < (256::int))"
  by (simp add: in_byte_range_def)

lemma in_byte_range_zero [simp]: "in_byte_range 0"
  by (simp add: in_byte_range_def)

lemma in_byte_range_negative [simp]: "\<not> in_byte_range (- numeral k)"
  by (simp add: in_byte_range_def)

lemma getslice_all_but_last: "getslice xs 0 (- 1) = butlast xs"
proof -
  have "nat (max 0 (int (length xs) - 1)) = length xs - 1" by simp
  then show ?thesis
    by (simp add: getslice_def slice_bound_def butlast_conv_take)
qed

lemma getitem_first: "xs \<noteq> [] \<Longrightarrow> getitem xs 0 = Inr (xs ! 0)"
  by (simp add: getitem_def)

lemma getitem_last: "xs \<noteq> [] \<Longrightarrow> getitem xs (- 1) = Inr (last xs)"
  by (cases xs rule: rev_cases) (auto simp: getitem_def nth_append)

lemma getitem_second: "Suc 0 < length xs \<Longrightarrow> getitem xs 1 = Inr (xs ! 1)"
  by (simp add: getitem_def)

lemma trailing_checksum_snoc: "trailing_checksum (xs @ [sum_list xs mod 256])"
  by (simp add: trailing_checksum_def getslice_all_but_last getitem_last)

section \<open>A message built from a fresh bytearray\<close>

text \<open>
  Every \<open>construct_*\<close> method has the shape
  \<open>self.construct_message(bytearray([...]))\<close>. The call allocates one object, frames it
  and returns it; nothing else in the state changes.
\<close>

lemma construct_message_fresh:
  "bind (bytearray xs) (construct_message p) s =
     (if list_all in_byte_range xs
      then (Inr (next_ref s),
            s\<lparr>heap := (heap s)(next_ref s \<mapsto> framed p xs), next_ref := Suc (next_ref s)\<rparr>)
      else (Inl ValueError, s))"
  by (cases p)
    (simp_all add: bind_def bytearray_def return_def framed_def
      ProtocolLEDENETOriginal_construct_message_def ProtocolLEDENET8Byte_construct_message_def
      bytearray_sum_def bytearray_append_def and_255_eq_mod in_byte_range_mod)

lemma returned_bytes_fresh:
  "returned_bytes (bind (bytearray xs) (construct_message p) s) =
     (if list_all in_byte_range xs then Inr (framed p xs) else Inl ValueError)"
  by (simp add: construct_message_fresh returned_bytes_def)

lemma construct_state_query_unfold:
  "construct_state_query p =
     bind (bytearray (if p = ProtocolLEDENETOriginal then [0xEF, 0x01, 0x77] else [0x81, 0x8A, 0x8B]))
       (construct_message p)"
  by (cases p)
    (simp_all add: ProtocolLEDENETOriginal_construct_state_query_def
      ProtocolLEDENET8Byte_construct_state_query_def)

lemma construct_state_change_unfold:
  "construct_state_change p turn_on =
     bind (bytearray (if p = ProtocolLEDENETOriginal
                      then [0xCC, if turn_on then 0x23 else 0x24, 0x33]
                      else [0x71, if turn_on then 0x23 else 0x24, 0x0F]))
       (construct_message p)"
  by (cases p)
    (simp_all add: ProtocolLEDENETOriginal_construct_state_change_def
      ProtocolLEDENET8Byte_construct_state_change_def on_byte_def off_byte_def)

lemma construct_levels_change_unfold:
  "construct_levels_change p persist r g b ww cw m =
     bind (bytearray
            (case p of
               ProtocolLEDENETOriginal \<Rightarrow> [0x56, r, g, b, 0xAA]
             | ProtocolLEDENET8Byte \<Rightarrow>
                 [if persist then 0x31 else 0x41, r, g, b, ww, LevelWriteMode_value m, 0x0F]
             | ProtocolLEDENET9Byte \<Rightarrow>
                 [if persist then 0x31 else 0x41, r, g, b, ww, cw, LevelWriteMode_value m, 0x0F]))
       (construct_message p)"
  by (cases p)
    (simp_all add: ProtocolLEDENETOriginal_construct_levels_change_def
      ProtocolLEDENET8Byte_construct_levels_change_def
      ProtocolLEDENET9Byte_construct_levels_change_def)

lemma in_byte_range_mode: "in_byte_range (LevelWriteMode_value m)"
  by (cases m) (simp_all add: in_byte_range_def)

section \<open>Messages of the checksummed protocols end in their checksum\<close>

text \<open>
  Claim C1. For the 8-byte and the 9-byte protocol, the message returned by
  \<open>construct_state_query\<close>, by \<open>construct_state_change\<close> and by
  \<open>construct_levels_change\<close> (every channel argument in 0..255, the mode selector a
  \<open>LevelWriteMode\<close>) exists and ends in a checksum byte equal to the sum of all the bytes
  before it modulo 256: \<open>sum(m[0:-1]) mod 256 == m[-1]\<close>. This holds in every state of
  the store.
\<close>

theorem constructed_messages_checksummed:
  assumes "p = ProtocolLEDENET8Byte \<or> p = ProtocolLEDENET9Byte"
    and "in_byte_range r" and "in_byte_range g" and "in_byte_range b"
    and "in_byte_range ww" and "in_byte_range cw"
  shows "(\<exists>m. returned_bytes (construct_state_query p s) = Inr m \<and> trailing_checksum m) \<and>
         (\<exists>m. returned_bytes (construct_state_change p turn_on s) = Inr m \<and> trailing_checksum m) \<and>
         (\<exists>m. returned_bytes (construct_levels_change p persist r g b ww cw write_mode s) = Inr m
              \<and> trailing_checksum m)"
proof -
  have p: "p \<noteq> ProtocolLEDENETOriginal"
    using assms(1) by auto
  have sums: "\<And>xs. trailing_checksum (framed p xs)"
    using p by (simp add: framed_def trailing_checksum_snoc)
  have q: "\<exists>m. returned_bytes (construct_state_query p s) = Inr m \<and> trailing_checksum m"
    unfolding construct_state_query_unfold returned_bytes_fresh
    using p sums by simp
  have c: "\<exists>m. returned_bytes (construct_state_change p turn_on s) = Inr m \<and> trailing_checksum m"
    unfolding construct_state_change_unfold returned_bytes_fresh
    using p sums by simp
  have l: "\<exists>m. returned_bytes (construct_levels_change p persist r g b ww cw write_mode s) = Inr m
              \<and> trailing_checksum m"
    unfolding construct_levels_change_unfold returned_bytes_fresh
    using assms sums by (auto simp: in_byte_range_mode)
  from q c l show ?thesis by blast
qed

text \<open>
  The instance at the 9-byte protocol, with the level values of the sample message in the
  source (\<open>31 bc c1 ff 00 00 f0 0f\<close>); the state query there is \<open>81 8a 8b 96\<close>.
\<close>

theorem constructed_messages_checksummed_witness:
  "in_byte_range 0xBC \<and> in_byte_range 0xC1 \<and> in_byte_range 0xFF \<and> in_byte_range 0x00 \<and>
   returned_bytes (construct_state_query ProtocolLEDENET9Byte initial_state) =
     Inr [0x81, 0x8A, 0x8B, 0x96] \<and>
   trailing_checksum [0x81, 0x8A, 0x8B, 0x96] \<and>
   (\<exists>m. returned_bytes (construct_levels_change ProtocolLEDENET9Byte True 0xBC 0xC1 0xFF 0x00 0x00
           COLORS initial_state) = Inr m \<and> trailing_checksum m)"
proof -
  have r: "in_byte_range 0xBC" "in_byte_range 0xC1" "in_byte_range 0xFF" "in_byte_range 0x00"
    by simp_all
  have q: "returned_bytes (construct_state_query ProtocolLEDENET9Byte initial_state) =
     Inr [0x81, 0x8A, 0x8B, 0x96]"
    unfolding construct_state_query_unfold returned_bytes_fresh
    by (simp add: framed_def)
  have t: "trailing_checksum [0x81, 0x8A, 0x8B, 0x96]"
    using trailing_checksum_snoc [of "[0x81, 0x8A, 0x8B]"] by simp
  have "\<exists>m. returned_bytes (construct_levels_change ProtocolLEDENET9Byte True 0xBC 0xC1 0xFF 0x00
           0x00 COLORS initial_state) = Inr m \<and> trailing_checksum m"
    using constructed_messages_checksummed [of ProtocolLEDENET9Byte "0xBC" "0xC1" "0xFF" "0x00"
        "0x00" initial_state True True COLORS] r
    by blast
  with r q t show ?thesis by blast
qed

section \<open>The power byte of a state change\<close>

text \<open>
  Claim C5. For every protocol and every boolean \<open>turn_on\<close>, \<open>construct_state_change\<close>
  encodes power-on as 0x23 and power-off as 0x24. The original protocol returns exactly
  \<open>[0xCC, byte, 0x33]\<close> with no checksum; the 8-byte and the 9-byte protocol return
  \<open>[0x71, byte, 0x0F]\<close> followed by the checksum of these three bytes. For the 8-byte
  protocol and \<open>turn_on = True\<close> the message is \<open>[0x71, 0x23, 0x0F, 0xA3]\<close>.
\<close>

theorem state_change_bytes:
  "returned_bytes (construct_state_change ProtocolLEDENETOriginal turn_on s) =
     Inr [0xCC, if turn_on then 0x23 else 0x24, 0x33] \<and>
   returned_bytes (construct_state_change ProtocolLEDENET8Byte turn_on s) =
     Inr ([0x71, if turn_on then 0x23 else 0x24, 0x0F] @
          [sum_list [0x71, if turn_on then 0x23 else 0x24, 0x0F] mod 256]) \<and>
   returned_bytes (construct_state_change ProtocolLEDENET9Byte turn_on s) =
     Inr ([0x71, if turn_on then 0x23 else 0x24, 0x0F] @
          [sum_list [0x71, if turn_on then 0x23 else 0x24, 0x0F] mod 256]) \<and>
   returned_bytes (construct_state_change ProtocolLEDENET8Byte True s) =
     Inr [0x71, 0x23, 0x0F, 0xA3]"
  unfolding construct_state_change_unfold returned_bytes_fresh
  by (simp add: framed_def)

section \<open>The level change of the original protocol\<close>

text \<open>
  Claim C8. For red, green and blue in 0..255 and for every value of \<open>persist\<close>,
  \<open>warm_white\<close>, \<open>cool_white\<close> and the mode selector, the original protocol's
  \<open>construct_levels_change\<close> returns exactly \<open>[0x56, red, green, blue, 0xAA]\<close>: no
  checksum is appended, and the outcome of the call (the returned object and the state
  after it) is the same whatever \<open>persist\<close>, the two white values and the mode selector
  are.
\<close>

theorem original_levels_change:
  assumes "in_byte_range r" and "in_byte_range g" and "in_byte_range b"
  shows "returned_bytes (construct_levels_change ProtocolLEDENETOriginal persist r g b ww cw color_mask s)
           = Inr [0x56, r, g, b, 0xAA] \<and>
         construct_levels_change ProtocolLEDENETOriginal persist r g b ww cw color_mask s
           = construct_levels_change ProtocolLEDENETOriginal persist' r g b ww' cw' color_mask' s"
  unfolding construct_levels_change_unfold returned_bytes_fresh
  using assms by (simp add: framed_def)

text \<open>
  The instance at the sample message of the source (\<open>56 90 fa 77 aa\<close>), with white
  values that are not even bytes.
\<close>

theorem original_levels_change_witness:
  "in_byte_range 0x90 \<and> in_byte_range 0xFA \<and> in_byte_range 0x77 \<and>
   returned_bytes (construct_levels_change ProtocolLEDENETOriginal True 0x90 0xFA 0x77 300 (- 1)
       WHITES initial_state) = Inr [0x56, 0x90, 0xFA, 0x77, 0xAA] \<and>
   construct_levels_change ProtocolLEDENETOriginal True 0x90 0xFA 0x77 300 (- 1) WHITES initial_state
     = construct_levels_change ProtocolLEDENETOriginal False 0x90 0xFA 0x77 0 0 ALL' initial_state"
proof -
  have r: "in_byte_range 0x90" "in_byte_range 0xFA" "in_byte_range 0x77"
    by simp_all
  from original_levels_change [OF r, of True 300 "- 1" WHITES initial_state False 0 0 ALL'] r
  show ?thesis by blast
qed

section \<open>What the validators compute\<close>

text \<open>
  The validator of the original class returns, in an unchanged state, whether the response
  has eleven bytes and \<open>0x01\<close> at index 1. The validator shared by the 8-byte and the
  9-byte class returns whether the response has fourteen bytes, starts with \<open>0x81\<close> and
  ends in the checksum of the bytes before; only a checksum mismatch adds a log record.
  Neither indexes out of range.
\<close>

lemma original_is_valid:
  "is_valid_state_response ProtocolLEDENETOriginal raw_state s =
     (Inr (length raw_state = 11 \<and> raw_state ! 1 = 0x01), s)"
  by (simp add: ProtocolLEDENETOriginal_is_valid_state_response_def
      LEDENET_ORIGINAL_STATE_RESPONSE_LEN_def bind_def lift_def return_def getitem_second)

lemma checksummed_is_valid:
  assumes "p \<noteq> ProtocolLEDENETOriginal"
  shows "fst (is_valid_state_response p raw_state s) =
     Inr (length raw_state = 14 \<and> raw_state ! 0 = 0x81 \<and>
          sum_list (butlast raw_state) mod 256 = last raw_state)"
proof (cases "length raw_state = 14")
  case False
  with assms show ?thesis
    by (cases p)
      (simp_all add: ProtocolLEDENET8Byte_is_valid_state_response_def
        LEDENET_STATE_RESPONSE_LEN_def return_def)
next
  case True
  then have ne: "raw_state \<noteq> []" by auto
  with True assms show ?thesis
    by (cases p)
      (simp_all add: ProtocolLEDENET8Byte_is_valid_state_response_def
        LEDENET_STATE_RESPONSE_LEN_def return_def bind_def lift_def logger_warning_def
        getitem_first getitem_last getslice_all_but_last and_255_eq_mod Let_def)
qed

lemma checksummed_is_valid_accepts:
  assumes "p \<noteq> ProtocolLEDENETOriginal" and "length raw_state = 14"
    and "raw_state ! 0 = 0x81" and "sum_list (butlast raw_state) mod 256 = last raw_state"
  shows "is_valid_state_response p raw_state s = (Inr True, s)"
proof -
  from assms(2) have ne: "raw_state \<noteq> []" by auto
  with assms show ?thesis
    by (cases p)
      (simp_all add: ProtocolLEDENET8Byte_is_valid_state_response_def
        LEDENET_STATE_RESPONSE_LEN_def return_def bind_def lift_def
        getitem_first getitem_last getslice_all_but_last and_255_eq_mod Let_def)
qed

lemma fourteen_bytes:
  assumes "length xs = 14"
  shows "xs = [xs ! 0, xs ! 1, xs ! 2, xs ! 3, xs ! 4, xs ! 5, xs ! 6, xs ! 7, xs ! 8, xs ! 9,
               xs ! 10, xs ! 11, xs ! 12, xs ! 13]"
  using assms by (intro nth_equalityI) (auto simp: nth_Cons' less_Suc_eq numeral_eq_Suc)

section \<open>A valid 14-byte response and its named fields\<close>

text \<open>
  Claim C2. For every 14-byte sequence whose first byte is 0x81 and whose last byte is the
  sum of the first thirteen modulo 256, \<open>is_valid_state_response\<close> of the 8-byte protocol
  returns true (and logs nothing), and \<open>named_raw_state\<close> returns a record whose fourteen
  fields \<open>head, model_num, power_state, preset_pattern, mode, speed, red, green, blue,
  warm_white, version_number, cool_white, color_mode, check_sum\<close> are the fourteen input
  bytes in order.
\<close>

theorem valid_response_roundtrip:
  assumes "length raw_state = 14" and "raw_state ! 0 = 0x81"
    and "raw_state ! 13 = sum_list (take 13 raw_state) mod 256"
  shows "is_valid_state_response ProtocolLEDENET8Byte raw_state s = (Inr True, s) \<and>
         (\<exists>st. ProtocolLEDENET8Byte_named_raw_state ProtocolLEDENET8Byte raw_state s = (Inr st, s) \<and>
            head st = raw_state ! 0 \<and> model_num st = raw_state ! 1 \<and>
            power_state st = raw_state ! 2 \<and> preset_pattern st = raw_state ! 3 \<and>
            mode st = raw_state ! 4 \<and> speed st = raw_state ! 5 \<and> red st = raw_state ! 6 \<and>
            green st = raw_state ! 7 \<and> blue st = raw_state ! 8 \<and>
            warm_white st = raw_state ! 9 \<and> version_number st = raw_state ! 10 \<and>
            cool_white st = raw_state ! 11 \<and> color_mode st = raw_state ! 12 \<and>
            check_sum st = raw_state ! 13)"
proof -
  from assms(1) have ne: "raw_state \<noteq> []" by auto
  have "butlast raw_state = take 13 raw_state"
    using assms(1) by (simp add: butlast_conv_take)
  moreover have "last raw_state = raw_state ! 13"
    using assms(1) ne by (simp add: last_conv_nth)
  ultimately have "sum_list (butlast raw_state) mod 256 = last raw_state"
    using assms(3) by simp
  with assms have valid: "is_valid_state_response ProtocolLEDENET8Byte raw_state s = (Inr True, s)"
    by (intro checksummed_is_valid_accepts) simp_all
  obtain b0 b1 b2 b3 b4 b5 b6 b7 b8 b9 b10 b11 b12 b13
    where raw: "raw_state = [b0, b1, b2, b3, b4, b5, b6, b7, b8, b9, b10, b11, b12, b13]"
    using fourteen_bytes [OF assms(1)] by blast
  have "\<exists>st. ProtocolLEDENET8Byte_named_raw_state ProtocolLEDENET8Byte raw_state s = (Inr st, s) \<and>
            head st = raw_state ! 0 \<and> model_num st = raw_state ! 1 \<and>
            power_state st = raw_state ! 2 \<and> preset_pattern st = raw_state ! 3 \<and>
            mode st = raw_state ! 4 \<and> speed st = raw_state ! 5 \<and> red st = raw_state ! 6 \<and>
            green st = raw_state ! 7 \<and> blue st = raw_state ! 8 \<and>
            warm_white st = raw_state ! 9 \<and> version_number st = raw_state ! 10 \<and>
            cool_white st = raw_state ! 11 \<and> color_mode st = raw_state ! 12 \<and>
            check_sum st = raw_state ! 13"
    unfolding raw by (simp add: ProtocolLEDENET8Byte_named_raw_state_def lift_def)
  with valid show ?thesis by blast
qed

text \<open>
  The instance at the response of a 5-channel controller quoted in the source,
  \<open>81 25 23 61 21 06 38 05 06 f9 01 00 0f 9d\<close>.
\<close>

theorem valid_response_roundtrip_witness:
  "is_valid_state_response ProtocolLEDENET8Byte
     [0x81, 0x25, 0x23, 0x61, 0x21, 0x06, 0x38, 0x05, 0x06, 0xF9, 0x01, 0x00, 0x0F, 0x9D]
     initial_state = (Inr True, initial_state) \<and>
   ProtocolLEDENET8Byte_named_raw_state ProtocolLEDENET8Byte
     [0x81, 0x25, 0x23, 0x61, 0x21, 0x06, 0x38, 0x05, 0x06, 0xF9, 0x01, 0x00, 0x0F, 0x9D]
     initial_state =
     (Inr \<lparr>head = 0x81, model_num = 0x25, power_state = 0x23, preset_pattern = 0x61,
           mode = 0x21, speed = 0x06, red = 0x38, green = 0x05, blue = 0x06, warm_white = 0xF9,
           version_number = 0x01, cool_white = 0x00, color_mode = 0x0F, check_sum = 0x9D\<rparr>,
      initial_state)"
  using valid_response_roundtrip
    [of "[0x81, 0x25, 0x23, 0x61, 0x21, 0x06, 0x38, 0x05, 0x06, 0xF9, 0x01, 0x00, 0x0F, 0x9D]"
      initial_state]
  by (simp add: ProtocolLEDENET8Byte_named_raw_state_def lift_def)

section \<open>Validation in the original protocol\<close>

text \<open>
  Claim C3. For every byte sequence, \<open>is_valid_state_response\<close> of the original protocol
  returns true if and only if the sequence has length 11 and its byte at index 1 is 0x01;
  in particular an 11-byte response whose byte at index 1 is not 0x01 yields false.
\<close>

theorem original_validation:
  "is_valid_state_response ProtocolLEDENETOriginal raw_state s =
     (Inr (length raw_state = 11 \<and> raw_state ! 1 = 0x01), s) \<and>
   (length raw_state = 11 \<and> raw_state ! 1 \<noteq> 0x01 \<longrightarrow>
      is_valid_state_response ProtocolLEDENETOriginal raw_state s = (Inr False, s))"
  unfolding original_is_valid by simp

text \<open>
  The instances at the typical response quoted in the source,
  \<open>66 01 24 39 21 0a ff 00 00 01 99\<close>, and at the same response with 0x02 at index 1.
\<close>

theorem original_validation_witness:
  "is_valid_state_response ProtocolLEDENETOriginal
     [0x66, 0x01, 0x24, 0x39, 0x21, 0x0A, 0xFF, 0x00, 0x00, 0x01, 0x99] initial_state =
     (Inr True, initial_state) \<and>
   is_valid_state_response ProtocolLEDENETOriginal
     [0x66, 0x02, 0x24, 0x39, 0x21, 0x0A, 0xFF, 0x00, 0x00, 0x01, 0x99] initial_state =
     (Inr False, initial_state)"
  using original_validation
      [of "[0x66, 0x01, 0x24, 0x39, 0x21, 0x0A, 0xFF, 0x00, 0x00, 0x01, 0x99]" initial_state]
    original_validation
      [of "[0x66, 0x02, 0x24, 0x39, 0x21, 0x0A, 0xFF, 0x00, 0x00, 0x01, 0x99]" initial_state]
  by simp

section \<open>Responses of the wrong length\<close>

text \<open>
  Claim C6. \<open>state_response_length\<close> is 11 for the original protocol and 14 for the
  8-byte and the 9-byte protocol. For every protocol, \<open>is_valid_state_response\<close> returns
  false on a sequence of any other length, and it raises on no sequence at all, short and
  empty ones included.
\<close>

theorem wrong_length_is_rejected:
  "state_response_length ProtocolLEDENETOriginal = 11 \<and>
   state_response_length ProtocolLEDENET8Byte = 14 \<and>
   state_response_length ProtocolLEDENET9Byte = 14 \<and>
   (length raw_state \<noteq> state_response_length p \<longrightarrow>
      fst (is_valid_state_response p raw_state s) = Inr False) \<and>
   (\<exists>v. fst (is_valid_state_response p raw_state s) = Inr v)"
proof (cases "p = ProtocolLEDENETOriginal")
  case True
  then show ?thesis
    unfolding True original_is_valid
    by (simp add: LEDENET_ORIGINAL_STATE_RESPONSE_LEN_def LEDENET_STATE_RESPONSE_LEN_def)
next
  case False
  then have "state_response_length p = 14"
    by (cases p) (simp_all add: LEDENET_STATE_RESPONSE_LEN_def)
  then show ?thesis
    unfolding checksummed_is_valid [OF False]
    by (simp add: LEDENET_ORIGINAL_STATE_RESPONSE_LEN_def LEDENET_STATE_RESPONSE_LEN_def)
qed

text \<open>
  The instances at the empty sequence, at a one-byte sequence and at an 11-byte response
  handed to the 8-byte protocol.
\<close>

theorem wrong_length_is_rejected_witness:
  "fst (is_valid_state_response ProtocolLEDENETOriginal [] initial_state) = Inr False \<and>
   fst (is_valid_state_response ProtocolLEDENET8Byte [] initial_state) = Inr False \<and>
   fst (is_valid_state_response ProtocolLEDENET9Byte [0x81] initial_state) = Inr False \<and>
   fst (is_valid_state_response ProtocolLEDENET8Byte
          [0x66, 0x01, 0x24, 0x39, 0x21, 0x0A, 0xFF, 0x00, 0x00, 0x01, 0x99] initial_state)
     = Inr False"
  using wrong_length_is_rejected [of "[]" ProtocolLEDENETOriginal initial_state]
    wrong_length_is_rejected [of "[]" ProtocolLEDENET8Byte initial_state]
    wrong_length_is_rejected [of "[0x81]" ProtocolLEDENET9Byte initial_state]
    wrong_length_is_rejected
      [of "[0x66, 0x01, 0x24, 0x39, 0x21, 0x0A, 0xFF, 0x00, 0x00, 0x01, 0x99]"
        ProtocolLEDENET8Byte initial_state]
  by (simp del: is_valid_state_response.simps
      add: LEDENET_ORIGINAL_STATE_RESPONSE_LEN_def LEDENET_STATE_RESPONSE_LEN_def)

section \<open>The structure of an accepted response\<close>

text \<open>
  Claim C7, as stated, says that every accepted response carries the header byte expected
  for the protocol. The original protocol does not read the header byte (index 0, the
  field \<open>head\<close>): it tests the byte at index 1 (the field \<open>model_num\<close>). It accepts the
  typical response of the source, whose header is 0x66, and it accepts the same response
  with the header replaced by 0x81, the header of the other two protocols. No single
  expected header value exists for it.
\<close>

theorem original_accepts_any_header:
  "fst (is_valid_state_response ProtocolLEDENETOriginal
          [0x66, 0x01, 0x24, 0x39, 0x21, 0x0A, 0xFF, 0x00, 0x00, 0x01, 0x99] initial_state)
     = Inr True \<and>
   fst (is_valid_state_response ProtocolLEDENETOriginal
          [0x81, 0x01, 0x24, 0x39, 0x21, 0x0A, 0xFF, 0x00, 0x00, 0x01, 0x99] initial_state)
     = Inr True \<and>
   [0x66, 0x01, 0x24, 0x39, 0x21, 0x0A, 0xFF, 0x00, 0x00, 0x01, 0x99] ! 0 \<noteq>
   [0x81, 0x01, 0x24, 0x39, 0x21, 0x0A, 0xFF, 0x00, 0x00, 0x01, 0x99 :: int] ! 0"
  unfolding original_is_valid by simp

text \<open>
  Claim C7, amended. Every response accepted by the 8-byte or the 9-byte protocol has
  fourteen bytes, the header byte 0x81 at index 0, and a last byte equal to the sum of all
  bytes before it modulo 256. Every response accepted by the original protocol has eleven
  bytes and the byte 0x01 at index 1; its header byte is not constrained.
\<close>

theorem accepted_response_structure:
  assumes "fst (is_valid_state_response p raw_state s) = Inr True"
  shows "(p = ProtocolLEDENETOriginal \<longrightarrow> length raw_state = 11 \<and> raw_state ! 1 = 0x01) \<and>
         (p \<noteq> ProtocolLEDENETOriginal \<longrightarrow>
            length raw_state = 14 \<and> raw_state ! 0 = 0x81 \<and>
            getitem raw_state (- 1) = Inr (sum_list (getslice raw_state 0 (- 1)) mod 256))"
proof (cases "p = ProtocolLEDENETOriginal")
  case True
  with assms show ?thesis
    unfolding True original_is_valid by simp
next
  case False
  from assms have ok: "length raw_state = 14 \<and> raw_state ! 0 = 0x81 \<and>
      sum_list (butlast raw_state) mod 256 = last raw_state"
    unfolding checksummed_is_valid [OF False] by simp
  then have "raw_state \<noteq> []" by auto
  with ok False show ?thesis
    by (simp add: getitem_last getslice_all_but_last)
qed

text \<open>The instance at the 14-byte response quoted in the source, for the 9-byte protocol.\<close>

theorem accepted_response_structure_witness:
  "fst (is_valid_state_response ProtocolLEDENET9Byte
          [0x81, 0x25, 0x23, 0x61, 0x21, 0x06, 0x38, 0x05, 0x06, 0xF9, 0x01, 0x00, 0x0F, 0x9D]
          initial_state) = Inr True \<and>
   getitem [0x81, 0x25, 0x23, 0x61, 0x21, 0x06, 0x38, 0x05, 0x06, 0xF9, 0x01, 0x00, 0x0F, 0x9D]
     (- 1) =
   Inr (sum_list (getslice
         [0x81, 0x25, 0x23, 0x61, 0x21, 0x06, 0x38, 0x05, 0x06, 0xF9, 0x01, 0x00, 0x0F, 0x9D]
         0 (- 1)) mod 256)"
proof -
  have v: "fst (is_valid_state_response ProtocolLEDENET9Byte
          [0x81, 0x25, 0x23, 0x61, 0x21, 0x06, 0x38, 0x05, 0x06, 0xF9, 0x01, 0x00, 0x0F, 0x9D]
          initial_state) = Inr True"
    by (subst checksummed_is_valid) simp_all
  from accepted_response_structure [OF v] v show ?thesis by simp
qed

section \<open>The 9-byte protocol against the 8-byte protocol\<close>

text \<open>
  Claim C4, as stated, says that the 9-byte protocol differs from the 8-byte protocol only
  in \<open>construct_levels_change\<close>. The class \<open>ProtocolLEDENET9Byte\<close> overrides \<open>name\<close> as
  well: it is \<open>LEDENET\<close> there and \<open>LEDENET_8BYTE\<close> in the 8-byte class.
\<close>

theorem ninebyte_overrides_name:
  "name ProtocolLEDENET9Byte = ''LEDENET'' \<and>
   name ProtocolLEDENET8Byte = ''LEDENET_8BYTE'' \<and>
   name ProtocolLEDENET9Byte \<noteq> name ProtocolLEDENET8Byte"
  by (simp add: PROTOCOL_LEDENET_9BYTE_def PROTOCOL_LEDENET_8BYTE_def)

text \<open>
  Claim C4, amended. The 9-byte protocol's \<open>construct_state_query\<close>,
  \<open>construct_state_change\<close>, \<open>construct_message\<close> and \<open>is_valid_state_response\<close> are the
  8-byte protocol's: equal as functions, hence equal on every argument and in every state.
  So are its \<open>named_raw_state\<close>, \<open>state_response_length\<close>, \<open>on_byte\<close>, \<open>off_byte\<close>,
  \<open>state_response_names\<close> and \<open>set_command_names\<close>. The two differ only in \<open>name\<close>
  (\<open>LEDENET\<close> against \<open>LEDENET_8BYTE\<close>) and in \<open>construct_levels_change\<close>: for channel
  values in 0..255 the 9-byte protocol returns
  \<open>[0x31 if persist else 0x41, red, green, blue, warm_white, cool_white, mode code, 0x0F]\<close>
  followed by the checksum of these eight bytes, which is never the 8-byte protocol's
  message for the same arguments. For \<open>persist = True\<close>, red 0xBC, green 0xC1, blue 0xFF,
  both whites 0x00 and mode \<open>COLORS\<close> the message is
  \<open>[0x31, 0xBC, 0xC1, 0xFF, 0x00, 0x00, 0xF0, 0x0F, 0xAC]\<close>.
\<close>

theorem ninebyte_refines_eightbyte:
  "construct_state_query ProtocolLEDENET9Byte = construct_state_query ProtocolLEDENET8Byte \<and>
   construct_state_change ProtocolLEDENET9Byte = construct_state_change ProtocolLEDENET8Byte \<and>
   construct_message ProtocolLEDENET9Byte = construct_message ProtocolLEDENET8Byte \<and>
   is_valid_state_response ProtocolLEDENET9Byte = is_valid_state_response ProtocolLEDENET8Byte \<and>
   named_raw_state ProtocolLEDENET9Byte = named_raw_state ProtocolLEDENET8Byte \<and>
   state_response_length ProtocolLEDENET9Byte = state_response_length ProtocolLEDENET8Byte \<and>
   on_byte ProtocolLEDENET9Byte = on_byte ProtocolLEDENET8Byte \<and>
   off_byte ProtocolLEDENET9Byte = off_byte ProtocolLEDENET8Byte \<and>
   state_response_names ProtocolLEDENET9Byte = state_response_names ProtocolLEDENET8Byte \<and>
   set_command_names ProtocolLEDENET9Byte = set_command_names ProtocolLEDENET8Byte \<and>
   name ProtocolLEDENET9Byte = ''LEDENET'' \<and>
   name ProtocolLEDENET8Byte = ''LEDENET_8BYTE'' \<and>
   name ProtocolLEDENET9Byte \<noteq> name ProtocolLEDENET8Byte \<and>
   (in_byte_range r \<and> in_byte_range g \<and> in_byte_range b \<and> in_byte_range ww \<and> in_byte_range cw
     \<longrightarrow>
      returned_bytes (construct_levels_change ProtocolLEDENET9Byte persist r g b ww cw m s) =
        Inr ([if persist then 0x31 else 0x41, r, g, b, ww, cw, LevelWriteMode_value m, 0x0F] @
             [sum_list [if persist then 0x31 else 0x41, r, g, b, ww, cw, LevelWriteMode_value m,
                        0x0F] mod 256]) \<and>
      returned_bytes (construct_levels_change ProtocolLEDENET9Byte persist r g b ww cw m s) \<noteq>
        returned_bytes (construct_levels_change ProtocolLEDENET8Byte persist r g b ww cw m s)) \<and>
   returned_bytes (construct_levels_change ProtocolLEDENET9Byte True 0xBC 0xC1 0xFF 0x00 0x00
       COLORS s) = Inr [0x31, 0xBC, 0xC1, 0xFF, 0x00, 0x00, 0xF0, 0x0F, 0xAC]"
proof -
  have f: "construct_message ProtocolLEDENET9Byte = construct_message ProtocolLEDENET8Byte"
    by (rule ext) (simp add: ProtocolLEDENET8Byte_construct_message_def)
  have q: "construct_state_query ProtocolLEDENET9Byte = construct_state_query ProtocolLEDENET8Byte"
    unfolding construct_state_query_unfold f by simp
  have c: "construct_state_change ProtocolLEDENET9Byte = construct_state_change ProtocolLEDENET8Byte"
    unfolding construct_state_change_unfold f by (rule ext) simp
  have v: "is_valid_state_response ProtocolLEDENET9Byte =
      is_valid_state_response ProtocolLEDENET8Byte"
    by (rule ext) (simp add: ProtocolLEDENET8Byte_is_valid_state_response_def)
  have t: "named_raw_state ProtocolLEDENET9Byte = named_raw_state ProtocolLEDENET8Byte"
    by (rule ext) (simp add: ProtocolLEDENET8Byte_named_raw_state_def)
  have n: "state_response_length ProtocolLEDENET9Byte = state_response_length ProtocolLEDENET8Byte"
    by simp
  have o: "on_byte ProtocolLEDENET9Byte = on_byte ProtocolLEDENET8Byte"
      "off_byte ProtocolLEDENET9Byte = off_byte ProtocolLEDENET8Byte"
      "state_response_names ProtocolLEDENET9Byte = state_response_names ProtocolLEDENET8Byte"
      "set_command_names ProtocolLEDENET9Byte = set_command_names ProtocolLEDENET8Byte"
    by (simp_all add: on_byte_def off_byte_def state_response_names_def set_command_names_def)
  have i: "name ProtocolLEDENET9Byte = ''LEDENET''"
      "name ProtocolLEDENET8Byte = ''LEDENET_8BYTE''"
      "name ProtocolLEDENET9Byte \<noteq> name ProtocolLEDENET8Byte"
    by (simp_all add: PROTOCOL_LEDENET_9BYTE_def PROTOCOL_LEDENET_8BYTE_def)
  have l: "in_byte_range r \<and> in_byte_range g \<and> in_byte_range b \<and> in_byte_range ww \<and>
      in_byte_range cw \<longrightarrow>
      returned_bytes (construct_levels_change ProtocolLEDENET9Byte persist r g b ww cw m s) =
        Inr ([if persist then 0x31 else 0x41, r, g, b, ww, cw, LevelWriteMode_value m, 0x0F] @
             [sum_list [if persist then 0x31 else 0x41, r, g, b, ww, cw, LevelWriteMode_value m,
                        0x0F] mod 256]) \<and>
      returned_bytes (construct_levels_change ProtocolLEDENET9Byte persist r g b ww cw m s) \<noteq>
        returned_bytes (construct_levels_change ProtocolLEDENET8Byte persist r g b ww cw m s)"
    unfolding construct_levels_change_unfold returned_bytes_fresh
    by (simp add: framed_def in_byte_range_mode)
  have e: "returned_bytes (construct_levels_change ProtocolLEDENET9Byte True 0xBC 0xC1 0xFF 0x00
       0x00 COLORS s) = Inr [0x31, 0xBC, 0xC1, 0xFF, 0x00, 0x00, 0xF0, 0x0F, 0xAC]"
    unfolding construct_levels_change_unfold returned_bytes_fresh
    by (simp add: framed_def)
  from q c f v t n o i l e show ?thesis by blast
qed

text \<open>An instance that does not persist and writes the whites.\<close>

theorem ninebyte_refines_eightbyte_witness:
  "in_byte_range 0x90 \<and> in_byte_range 0xFA \<and> in_byte_range 0x77 \<and> in_byte_range 0x10 \<and>
   in_byte_range 0x20 \<and>
   returned_bytes (construct_levels_change ProtocolLEDENET9Byte False 0x90 0xFA 0x77 0x10 0x20
       WHITES initial_state) = Inr [0x41, 0x90, 0xFA, 0x77, 0x10, 0x20, 0x0F, 0x0F, 0x90] \<and>
   returned_bytes (construct_levels_change ProtocolLEDENET9Byte False 0x90 0xFA 0x77 0x10 0x20
       WHITES initial_state) \<noteq>
   returned_bytes (construct_levels_change ProtocolLEDENET8Byte False 0x90 0xFA 0x77 0x10 0x20
       WHITES initial_state)"
proof -
  have r: "in_byte_range 0x90 \<and> in_byte_range 0xFA \<and> in_byte_range 0x77 \<and> in_byte_range 0x10 \<and>
           in_byte_range 0x20"
    by simp
  with ninebyte_refines_eightbyte [of "0x90" "0xFA" "0x77" "0x10" "0x20" False WHITES initial_state]
  have a: "returned_bytes (construct_levels_change ProtocolLEDENET9Byte False 0x90 0xFA 0x77 0x10
       0x20 WHITES initial_state) =
        Inr ([if False then 0x31 else 0x41, 0x90, 0xFA, 0x77, 0x10, 0x20,
              LevelWriteMode_value WHITES, 0x0F] @
             [sum_list [if False then 0x31 else 0x41, 0x90, 0xFA, 0x77, 0x10, 0x20,
                        LevelWriteMode_value WHITES, 0x0F] mod 256])"
    and d: "returned_bytes (construct_levels_change ProtocolLEDENET9Byte False 0x90 0xFA 0x77 0x10
       0x20 WHITES initial_state) \<noteq>
      returned_bytes (construct_levels_change ProtocolLEDENET8Byte False 0x90 0xFA 0x77 0x10 0x20
       WHITES initial_state)"
    by blast+
  from a have "returned_bytes (construct_levels_change ProtocolLEDENET9Byte False 0x90 0xFA 0x77
       0x10 0x20 WHITES initial_state) = Inr [0x41, 0x90, 0xFA, 0x77, 0x10, 0x20, 0x0F, 0x0F, 0x90]"
    by (simp del: construct_levels_change.simps)
  with r d show ?thesis by blast
qed

section \<open>The constructors neither read nor keep state\<close>

lemma called_twice_fresh:
  "called_twice (bind (bytearray xs) (construct_message p)) s =
     (if list_all in_byte_range xs then (Inr (framed p xs), Inr (framed p xs))
      else (Inl ValueError, Inl ValueError))"
  by (simp add: called_twice_def construct_message_fresh returned_bytes_def)

lemma logger_fresh:
  "logger (snd (bind (bytearray xs) (construct_message p) s)) = logger s"
  by (simp add: construct_message_fresh)

text \<open>
  Claim C9. Every \<open>construct_state_query\<close>, \<open>construct_state_change\<close> and
  \<open>construct_levels_change\<close> of every protocol is deterministic and stateless. The bytes
  of the returned message are the same from any two states \<open>s\<close> and \<open>s'\<close> of the
  interpreter (whatever is allocated, whatever the allocation counter, whatever was
  logged); two consecutive calls with the same arguments return byte-identical sequences,
  the first still intact after the second; and no call writes to the logger.
\<close>

theorem construct_operations_stateless:
  "returned_bytes (construct_state_query p s) = returned_bytes (construct_state_query p s') \<and>
   returned_bytes (construct_state_change p turn_on s) =
     returned_bytes (construct_state_change p turn_on s') \<and>
   returned_bytes (construct_levels_change p persist r g b ww cw m s) =
     returned_bytes (construct_levels_change p persist r g b ww cw m s') \<and>
   fst (called_twice (construct_state_query p) s) = snd (called_twice (construct_state_query p) s) \<and>
   fst (called_twice (construct_state_change p turn_on) s) =
     snd (called_twice (construct_state_change p turn_on) s) \<and>
   fst (called_twice (construct_levels_change p persist r g b ww cw m) s) =
     snd (called_twice (construct_levels_change p persist r g b ww cw m) s) \<and>
   logger (snd (construct_state_query p s)) = logger s \<and>
   logger (snd (construct_state_change p turn_on s)) = logger s \<and>
   logger (snd (construct_levels_change p persist r g b ww cw m s)) = logger s"
  unfolding construct_state_query_unfold construct_state_change_unfold
    construct_levels_change_unfold returned_bytes_fresh called_twice_fresh logger_fresh
  by simp

text \<open>
  The instance at the state query of the 8-byte protocol: called twice from the initial
  state, and called in the state the first call left behind.
\<close>

theorem construct_operations_stateless_witness:
  "called_twice (construct_state_query ProtocolLEDENET8Byte) initial_state =
     (Inr [0x81, 0x8A, 0x8B, 0x96], Inr [0x81, 0x8A, 0x8B, 0x96]) \<and>
   returned_bytes (construct_state_query ProtocolLEDENET8Byte
     (snd (construct_state_query ProtocolLEDENET8Byte initial_state))) =
   returned_bytes (construct_state_query ProtocolLEDENET8Byte initial_state)"
proof -
  have "called_twice (construct_state_query ProtocolLEDENET8Byte) initial_state =
     (Inr [0x81, 0x8A, 0x8B, 0x96], Inr [0x81, 0x8A, 0x8B, 0x96])"
    unfolding construct_state_query_unfold called_twice_fresh by (simp add: framed_def)
  with construct_operations_stateless
    [of ProtocolLEDENET8Byte "snd (construct_state_query ProtocolLEDENET8Byte initial_state)"
      initial_state]
  show ?thesis by blast
qed

section \<open>Totality of the level change and its precondition\<close>

text \<open>
  Claim C10, as stated, says that for every protocol any channel value outside 0..255 makes
  byte construction fail. The original protocol never reads the two white values and the
  8-byte protocol never reads \<open>cool_white\<close>: with 300 there, both return their message.
\<close>

theorem original_ignores_white_channels:
  "\<not> in_byte_range 300 \<and>
   returned_bytes (construct_levels_change ProtocolLEDENETOriginal True 0x90 0xFA 0x77 300 0x00
       ALL' initial_state) = Inr [0x56, 0x90, 0xFA, 0x77, 0xAA] \<and>
   returned_bytes (construct_levels_change ProtocolLEDENET8Byte True 0x90 0xFA 0x77 0x00 300
       ALL' initial_state) = Inr [0x31, 0x90, 0xFA, 0x77, 0x00, 0x00, 0x0F, 0x41]"
  unfolding construct_levels_change_unfold returned_bytes_fresh
  by (simp add: framed_def in_byte_range_def)

text \<open>
  Claim C10, amended. For every protocol, when red, green, blue, warm\_white and
  cool\_white are in 0..255 and the mode selector is a \<open>LevelWriteMode\<close>,
  \<open>construct_levels_change\<close> returns a byte sequence whose elements are all in 0..255, of
  length 5 for the original, 8 for the 8-byte and 9 for the 9-byte protocol. Byte
  construction fails (ValueError) exactly when a channel that the protocol encodes is
  outside 0..255: red, green or blue for the original protocol; these or warm\_white for
  the 8-byte protocol; any of the five for the 9-byte protocol. In every other case the
  call succeeds and returns the protocol's message, given here byte for byte. A channel
  the protocol does not encode (warm\_white and cool\_white for the original protocol,
  cool\_white for the 8-byte protocol) is ignored: the outcome of the call, the returned
  object and the state after it, is the same for every value of it, in range or not.
\<close>

theorem levels_change_total:
  "(in_byte_range r \<and> in_byte_range g \<and> in_byte_range b \<and> in_byte_range ww \<and> in_byte_range cw
     \<longrightarrow>
     (\<exists>msg. returned_bytes (construct_levels_change p persist r g b ww cw m s) = Inr msg \<and>
        list_all in_byte_range msg \<and>
        length msg = (case p of ProtocolLEDENETOriginal \<Rightarrow> 5 | ProtocolLEDENET8Byte \<Rightarrow> 8
                       | ProtocolLEDENET9Byte \<Rightarrow> 9))) \<and>
   (returned_bytes (construct_levels_change ProtocolLEDENETOriginal persist r g b ww cw m s) =
      Inl ValueError) =
     (\<not> (in_byte_range r \<and> in_byte_range g \<and> in_byte_range b)) \<and>
   (returned_bytes (construct_levels_change ProtocolLEDENET8Byte persist r g b ww cw m s) =
      Inl ValueError) =
     (\<not> (in_byte_range r \<and> in_byte_range g \<and> in_byte_range b \<and> in_byte_range ww)) \<and>
   (returned_bytes (construct_levels_change ProtocolLEDENET9Byte persist r g b ww cw m s) =
      Inl ValueError) =
     (\<not> (in_byte_range r \<and> in_byte_range g \<and> in_byte_range b \<and> in_byte_range ww \<and>
         in_byte_range cw)) \<and>
   returned_bytes (construct_levels_change ProtocolLEDENETOriginal persist r g b ww cw m s) =
     (if in_byte_range r \<and> in_byte_range g \<and> in_byte_range b
      then Inr [0x56, r, g, b, 0xAA] else Inl ValueError) \<and>
   returned_bytes (construct_levels_change ProtocolLEDENET8Byte persist r g b ww cw m s) =
     (if in_byte_range r \<and> in_byte_range g \<and> in_byte_range b \<and> in_byte_range ww
      then Inr ([if persist then 0x31 else 0x41, r, g, b, ww, LevelWriteMode_value m, 0x0F] @
                [sum_list [if persist then 0x31 else 0x41, r, g, b, ww, LevelWriteMode_value m,
                           0x0F] mod 256])
      else Inl ValueError) \<and>
   returned_bytes (construct_levels_change ProtocolLEDENET9Byte persist r g b ww cw m s) =
     (if in_byte_range r \<and> in_byte_range g \<and> in_byte_range b \<and> in_byte_range ww \<and>
         in_byte_range cw
      then Inr ([if persist then 0x31 else 0x41, r, g, b, ww, cw, LevelWriteMode_value m, 0x0F] @
                [sum_list [if persist then 0x31 else 0x41, r, g, b, ww, cw,
                           LevelWriteMode_value m, 0x0F] mod 256])
      else Inl ValueError) \<and>
   construct_levels_change ProtocolLEDENETOriginal persist r g b ww cw m s =
     construct_levels_change ProtocolLEDENETOriginal persist r g b ww' cw' m s \<and>
   construct_levels_change ProtocolLEDENET8Byte persist r g b ww cw m s =
     construct_levels_change ProtocolLEDENET8Byte persist r g b ww cw' m s"
proof -
  have total: "in_byte_range r \<and> in_byte_range g \<and> in_byte_range b \<and> in_byte_range ww \<and>
      in_byte_range cw \<longrightarrow>
     (\<exists>msg. returned_bytes (construct_levels_change p persist r g b ww cw m s) = Inr msg \<and>
        list_all in_byte_range msg \<and>
        length msg = (case p of ProtocolLEDENETOriginal \<Rightarrow> 5 | ProtocolLEDENET8Byte \<Rightarrow> 8
                       | ProtocolLEDENET9Byte \<Rightarrow> 9))"
    unfolding construct_levels_change_unfold returned_bytes_fresh
    by (cases p) (simp_all add: framed_def in_byte_range_mode in_byte_range_mod)
  have orig: "returned_bytes (construct_levels_change ProtocolLEDENETOriginal persist r g b ww cw
        m s) =
     (if in_byte_range r \<and> in_byte_range g \<and> in_byte_range b
      then Inr [0x56, r, g, b, 0xAA] else Inl ValueError)"
    unfolding construct_levels_change_unfold returned_bytes_fresh by (simp add: framed_def)
  have eight: "returned_bytes (construct_levels_change ProtocolLEDENET8Byte persist r g b ww cw
        m s) =
     (if in_byte_range r \<and> in_byte_range g \<and> in_byte_range b \<and> in_byte_range ww
      then Inr ([if persist then 0x31 else 0x41, r, g, b, ww, LevelWriteMode_value m, 0x0F] @
                [sum_list [if persist then 0x31 else 0x41, r, g, b, ww, LevelWriteMode_value m,
                           0x0F] mod 256])
      else Inl ValueError)"
    unfolding construct_levels_change_unfold returned_bytes_fresh
    by (simp add: framed_def in_byte_range_mode)
  have nine: "returned_bytes (construct_levels_change ProtocolLEDENET9Byte persist r g b ww cw
        m s) =
     (if in_byte_range r \<and> in_byte_range g \<and> in_byte_range b \<and> in_byte_range ww \<and>
         in_byte_range cw
      then Inr ([if persist then 0x31 else 0x41, r, g, b, ww, cw, LevelWriteMode_value m, 0x0F] @
                [sum_list [if persist then 0x31 else 0x41, r, g, b, ww, cw,
                           LevelWriteMode_value m, 0x0F] mod 256])
      else Inl ValueError)"
    unfolding construct_levels_change_unfold returned_bytes_fresh
    by (simp add: framed_def in_byte_range_mode)
  have orig_err: "(returned_bytes (construct_levels_change ProtocolLEDENETOriginal persist r g b
        ww cw m s) = Inl ValueError) = (\<not> (in_byte_range r \<and> in_byte_range g \<and> in_byte_range b))"
    unfolding orig by simp
  have eight_err: "(returned_bytes (construct_levels_change ProtocolLEDENET8Byte persist r g b ww
        cw m s) = Inl ValueError) =
      (\<not> (in_byte_range r \<and> in_byte_range g \<and> in_byte_range b \<and> in_byte_range ww))"
    unfolding eight by simp
  have nine_err: "(returned_bytes (construct_levels_change ProtocolLEDENET9Byte persist r g b ww
        cw m s) = Inl ValueError) =
      (\<not> (in_byte_range r \<and> in_byte_range g \<and> in_byte_range b \<and> in_byte_range ww \<and>
          in_byte_range cw))"
    unfolding nine by simp
  have orig_ign: "construct_levels_change ProtocolLEDENETOriginal persist r g b ww cw m s =
     construct_levels_change ProtocolLEDENETOriginal persist r g b ww' cw' m s"
    unfolding construct_levels_change_unfold by simp
  have eight_ign: "construct_levels_change ProtocolLEDENET8Byte persist r g b ww cw m s =
     construct_levels_change ProtocolLEDENET8Byte persist r g b ww cw' m s"
    unfolding construct_levels_change_unfold by simp
  from total orig_err eight_err nine_err orig eight nine orig_ign eight_ign
  show ?thesis by (intro conjI)
qed

text \<open>
  The instances at the 8-byte protocol: the sample levels of the source, the same with
  warm\_white 256, and the same with cool\_white 301; and at the original protocol with
  white values 301 and -1.
\<close>

theorem levels_change_total_witness:
  "in_byte_range 0x90 \<and> in_byte_range 0xFA \<and> in_byte_range 0x77 \<and> in_byte_range 0x00 \<and>
   (\<exists>msg. returned_bytes (construct_levels_change ProtocolLEDENET8Byte True 0x90 0xFA 0x77 0x00
              0x00 WHITES initial_state) = Inr msg \<and>
      list_all in_byte_range msg \<and> length msg = 8) \<and>
   returned_bytes (construct_levels_change ProtocolLEDENET8Byte True 0x90 0xFA 0x77 256 0x00
       WHITES initial_state) = Inl ValueError \<and>
   returned_bytes (construct_levels_change ProtocolLEDENET8Byte True 0x90 0xFA 0x77 0x00 301
       WHITES initial_state) = Inr [0x31, 0x90, 0xFA, 0x77, 0x00, 0x0F, 0x0F, 0x50] \<and>
   returned_bytes (construct_levels_change ProtocolLEDENETOriginal True 0x90 0xFA 0x77 301 (- 1)
       WHITES initial_state) = Inr [0x56, 0x90, 0xFA, 0x77, 0xAA]"
proof -
  have r: "in_byte_range 0x90 \<and> in_byte_range 0xFA \<and> in_byte_range 0x77 \<and> in_byte_range 0x00"
    by simp
  have n: "\<not> in_byte_range 256"
    by simp
  from levels_change_total
    [of "0x90" "0xFA" "0x77" "0x00" "0x00" ProtocolLEDENET8Byte True WHITES initial_state] r
  have a: "\<exists>msg. returned_bytes (construct_levels_change ProtocolLEDENET8Byte True 0x90 0xFA 0x77
              0x00 0x00 WHITES initial_state) = Inr msg \<and>
      list_all in_byte_range msg \<and> length msg = 8"
    by (simp del: construct_levels_change.simps)
  from levels_change_total
    [of "0x90" "0xFA" "0x77" "256" "0x00" ProtocolLEDENET8Byte True WHITES initial_state] n
  have b: "returned_bytes (construct_levels_change ProtocolLEDENET8Byte True 0x90 0xFA 0x77 256
       0x00 WHITES initial_state) = Inl ValueError"
    by blast
  from levels_change_total
    [of "0x90" "0xFA" "0x77" "0x00" "301" ProtocolLEDENET8Byte True WHITES initial_state]
  have c: "returned_bytes (construct_levels_change ProtocolLEDENET8Byte True 0x90 0xFA 0x77 0x00
       301 WHITES initial_state) = Inr [0x31, 0x90, 0xFA, 0x77, 0x00, 0x0F, 0x0F, 0x50]"
    by (simp del: construct_levels_change.simps)
  from levels_change_total
    [of "0x90" "0xFA" "0x77" "301" "- 1" ProtocolLEDENETOriginal True WHITES initial_state]
  have d: "returned_bytes (construct_levels_change ProtocolLEDENETOriginal True 0x90 0xFA 0x77 301
       (- 1) WHITES initial_state) = Inr [0x56, 0x90, 0xFA, 0x77, 0xAA]"
    by (simp del: construct_levels_change.simps)
  from r a b c d show ?thesis by blast
qed

end
